theory Spec2Isabelle
  imports Complex_Main
begin

section \<open>JavaScript values used by the map renderer\<close>

text \<open>
  The renderer (class \<open>AzureMapsRenderer\<close>) is JavaScript. A JS number is an IEEE double:
  a finite value, one of the two infinities, or NaN. \<open>Math.min\<close>, \<open>Math.max\<close> and the
  comparison operators only compare doubles and never round, so the finite doubles are
  modelled by the reals they denote (\<open>-0\<close> and \<open>+0\<close> are the same real; JS \<open>==\<close> and
  \<open><\<close> do not tell them apart either).
\<close>

datatype jsnum = NaN | NegInf | Fin real | PosInf

text \<open>The JS operators \<open><\<close>, \<open><=\<close> and \<open>==\<close> on numbers: every comparison with NaN is false.\<close>

fun js_lt :: "jsnum \<Rightarrow> jsnum \<Rightarrow> bool" where
  "js_lt NaN y = False"
| "js_lt x NaN = False"
| "js_lt x NegInf = False"
| "js_lt NegInf y = True"
| "js_lt PosInf y = False"
| "js_lt (Fin a) PosInf = True"
| "js_lt (Fin a) (Fin b) = (a < b)"

definition js_eq :: "jsnum \<Rightarrow> jsnum \<Rightarrow> bool" where
  "js_eq x y = (x \<noteq> NaN \<and> y \<noteq> NaN \<and> x = y)"

definition js_le :: "jsnum \<Rightarrow> jsnum \<Rightarrow> bool" where
  "js_le x y = (js_lt x y \<or> js_eq x y)"

text \<open>
  The errors a call can end with. \<open>TypeError\<close> and \<open>RangeError\<close> are the ones the language
  itself throws here (a property read on \<open>undefined\<close>, a call of something that is not a
  function, \<open>toFixed\<close> with too many digits). \<open>EmptyInputError\<close> and \<open>InvalidRangeError\<close>
  are the error names of the specification; the class has no \<open>throw\<close> statement at all, so
  no definition below ever builds one of these two.
\<close>

datatype js_error = TypeError | RangeError | EmptyInputError | InvalidRangeError

text \<open>
  The text a number is turned into: either spelled out, or the ordinary string form of a
  finite number (\<open>Number::toString\<close>), which is not expanded here.
\<close>

datatype number_text = Text string | NumberToString real

subsection \<open>\<open>Math.min\<close> and \<open>Math.max\<close>\<close>

text \<open>
  \<open>Math.min(...xs)\<close> starts from \<open>+Infinity\<close> and walks through the arguments: a NaN
  argument makes the result NaN, a smaller argument replaces the running value. With no
  argument at all the result is therefore \<open>+Infinity\<close>. \<open>Math.max\<close> is the mirror image,
  starting from \<open>-Infinity\<close>.
\<close>

fun min_loop :: "jsnum \<Rightarrow> jsnum list \<Rightarrow> jsnum" where
  "min_loop lowest [] = lowest"
| "min_loop lowest (n # ns) =
     (if n = NaN then NaN else min_loop (if js_lt n lowest then n else lowest) ns)"

fun max_loop :: "jsnum \<Rightarrow> jsnum list \<Rightarrow> jsnum" where
  "max_loop highest [] = highest"
| "max_loop highest (n # ns) =
     (if n = NaN then NaN else max_loop (if js_lt highest n then n else highest) ns)"

definition Math_min :: "jsnum list \<Rightarrow> jsnum" where
  "Math_min xs = min_loop PosInf xs"

definition Math_max :: "jsnum list \<Rightarrow> jsnum" where
  "Math_max xs = max_loop NegInf xs"

section \<open>\<open>addPNGOverlay\<close>: bounds and image corners\<close>

text \<open>
  The second argument of \<open>addPNGOverlay\<close> is the \<open>weather_data\<close> object of the backend's
  response: two arrays of numbers. The response may lack it, so the argument is optional
  (\<open>None\<close> is JS \<open>undefined\<close>).
\<close>

record weather_data =
  longitude :: "jsnum list"
  latitude :: "jsnum list"

record geo_bounds =
  west :: jsnum
  east :: jsnum
  south :: jsnum
  north :: jsnum

text \<open>
  Lines 131-138 of the class: read the two arrays and take their extremes. Reading
  \<open>weatherData.longitude\<close> from \<open>undefined\<close> throws TypeError, and there is no test for an
  empty array. \<open>overlay_bounds\<close> is what these lines compute once the four calls
  \<open>Math.min(...lons)\<close>, \<open>Math.max(...lons)\<close>, \<open>Math.min(...lats)\<close>, \<open>Math.max(...lats)\<close>
  are entered; whether they can be entered is the matter of \<open>overlay_bounds_spread\<close>
  below.
\<close>

definition overlay_bounds :: "weather_data option \<Rightarrow> js_error + geo_bounds" where
  "overlay_bounds weatherData =
     (case weatherData of
        None \<Rightarrow> Inl TypeError
      | Some wd \<Rightarrow>
          (let lons = longitude wd;
               lats = latitude wd
           in Inr \<lparr>west = Math_min lons, east = Math_max lons,
                   south = Math_min lats, north = Math_max lats\<rparr>))"

text \<open>
  The same lines as they run. \<open>Math.min(...lons)\<close> spreads the array into the arguments
  of one call. The language puts no bound on the number of arguments, but every engine
  does (a fixed number such as 65536, or what fits on its call stack), and a call with
  more arguments throws RangeError. The bound is the parameter \<open>maxArguments\<close>. The first
  call that is too long throws, so the lines end with RangeError as soon as one of the two
  arrays is longer than the bound, and with the bounds of \<open>overlay_bounds\<close> otherwise.
\<close>

definition overlay_bounds_spread :: "nat \<Rightarrow> weather_data option \<Rightarrow> js_error + geo_bounds" where
  "overlay_bounds_spread maxArguments weatherData =
     (case weatherData of
        None \<Rightarrow> Inl TypeError
      | Some wd \<Rightarrow>
          if maxArguments < length (longitude wd) then Inl RangeError
          else if maxArguments < length (latitude wd) then Inl RangeError
          else overlay_bounds weatherData)"

text \<open>Lines 151-156: the \<open>coordinates\<close> array handed to the image layer.\<close>

definition overlay_coordinates :: "geo_bounds \<Rightarrow> (jsnum \<times> jsnum) list" where
  "overlay_coordinates b =
     [(west b, north b), (east b, north b), (east b, south b), (west b, south b)]"

text \<open>
  The renderer object. Of the six fields the constructor sets, \<open>addPNGOverlay\<close> and
  \<open>addLegend\<close> touch \<open>map\<close> (here \<open>map_control\<close>) and \<open>imageLayer\<close>; the map control of the mapping SDK is
  modelled by what these two methods hand to it: the layers added, the camera set, and the
  legend panels appended to its container element. The SDK is taken to be loaded, and its
  constructors and calls to accept what they are given.
\<close>

record image_layer =
  url :: string
  coordinates :: "(jsnum \<times> jsnum) list"
  opacity :: real

record camera_options =
  bounds :: "jsnum list"
  padding :: nat

record legend_panel =
  title_text :: string
  date_text :: string
  region_text :: string
  gradient_scheme :: string
  min_label :: number_text
  max_label :: number_text

record atlas_map =
  layers :: "image_layer list"
  camera :: "camera_options option"
  container :: "legend_panel list"

record renderer =
  subscriptionKey :: string
  map_control :: "atlas_map option"
  imageLayer :: "image_layer option"

text \<open>The constructor: no map yet, no layer yet.\<close>

definition AzureMapsRenderer :: "string \<Rightarrow> renderer" where
  "AzureMapsRenderer key = \<lparr>subscriptionKey = key, map_control = None, imageLayer = None\<rparr>"

text \<open>
  \<open>addPNGOverlay\<close> (lines 128-186). The whole body is inside \<open>try\<close>, and the \<open>catch\<close> only
  logs: the method never throws. The result is the renderer afterwards, together with the
  error the \<open>catch\<close> block logged, if any. The assignment to \<open>this.imageLayer\<close> comes before
  the first use of \<open>this.map\<close>, so it survives when the map is still \<open>null\<close>. The first
  argument is the engine's bound on the arguments of one call.
\<close>

definition addPNGOverlay ::
  "nat \<Rightarrow> renderer \<Rightarrow> string \<Rightarrow> weather_data option \<Rightarrow> renderer \<times> js_error option" where
  "addPNGOverlay maxArguments this overlayUrl weatherData =
     (case overlay_bounds_spread maxArguments weatherData of
        Inl e \<Rightarrow> (this, Some e)
      | Inr b \<Rightarrow>
          (let layer = \<lparr>url = overlayUrl, coordinates = overlay_coordinates b, opacity = 0.9\<rparr>;
               this1 = this\<lparr>imageLayer := Some layer\<rparr>
           in case map_control this1 of
                None \<Rightarrow> (this1, Some TypeError)
              | Some m \<Rightarrow>
                  (let m1 = m\<lparr>layers := layers m @ [layer]\<rparr>;
                       m2 = m1\<lparr>camera := Some \<lparr>bounds = [west b, south b, east b, north b],
                                                 padding = 50\<rparr>\<rparr>
                   in (this1\<lparr>map_control := Some m2\<rparr>, None))))"

section \<open>\<open>getColorGradient\<close>\<close>

text \<open>
  The method returns a data-driven style expression of the mapping SDK: a JS array that
  starts with \<open>'interpolate'\<close>, \<open>['linear']\<close>, \<open>['heatmap-density']\<close> and goes on with
  alternating stops (numbers) and colours (strings).
\<close>

datatype js_value = Str string | Num real | Arr "js_value list"

text \<open>
  Lines 351-403. The \<open>switch\<close> compares the scheme name with three string labels and has a
  \<open>default\<close> branch; \<open>valueRange\<close> is a parameter the body never reads. A stop is the
  number its decimal literal spells; the doubles nearest to these literals are distinct and
  in the same order, and 0 and 1 are exact.
\<close>

definition getColorGradient :: "string \<Rightarrow> jsnum list option \<Rightarrow> js_value list" where
  "getColorGradient colorScheme valueRange =
     (if colorScheme = ''temperature'' then
        [Str ''interpolate'', Arr [Str ''linear''], Arr [Str ''heatmap-density''],
         Num 0, Str ''rgba(0, 0, 255, 0)'',
         Num 0.2, Str ''rgba(0, 100, 255, 1)'',
         Num 0.4, Str ''rgba(0, 255, 255, 1)'',
         Num 0.6, Str ''rgba(255, 255, 0, 1)'',
         Num 0.8, Str ''rgba(255, 100, 0, 1)'',
         Num 1, Str ''rgba(255, 0, 0, 1)'']
      else if colorScheme = ''precipitation'' then
        [Str ''interpolate'', Arr [Str ''linear''], Arr [Str ''heatmap-density''],
         Num 0, Str ''rgba(255, 255, 255, 0)'',
         Num 0.2, Str ''rgba(200, 200, 255, 1)'',
         Num 0.4, Str ''rgba(100, 150, 255, 1)'',
         Num 0.6, Str ''rgba(0, 100, 255, 1)'',
         Num 0.8, Str ''rgba(0, 50, 200, 1)'',
         Num 1, Str ''rgba(0, 0, 150, 1)'']
      else if colorScheme = ''drought'' then
        [Str ''interpolate'', Arr [Str ''linear''], Arr [Str ''heatmap-density''],
         Num 0, Str ''rgba(139, 0, 0, 1)'',
         Num 0.25, Str ''rgba(255, 0, 0, 1)'',
         Num 0.4, Str ''rgba(255, 165, 0, 1)'',
         Num 0.5, Str ''rgba(255, 255, 255, 0)'',
         Num 0.6, Str ''rgba(173, 216, 230, 1)'',
         Num 0.75, Str ''rgba(0, 191, 255, 1)'',
         Num 1, Str ''rgba(0, 0, 255, 1)'']
      else
        [Str ''interpolate'', Arr [Str ''linear''], Arr [Str ''heatmap-density''],
         Num 0, Str ''rgba(0, 0, 255, 0)'',
         Num 0.5, Str ''rgba(0, 255, 0, 1)'',
         Num 1, Str ''rgba(255, 0, 0, 1)''])"

text \<open>
  Reading the expression back: after the three leading entries, every number followed by
  a string is one (stop, colour) pair. Reading stops at the first entry that does not fit.
\<close>

fun stop_pairs :: "js_value list \<Rightarrow> (real \<times> string) list" where
  "stop_pairs (Num s # Str c # rest) = (s, c) # stop_pairs rest"
| "stop_pairs rest = []"

definition gradient_stops :: "js_value list \<Rightarrow> (real \<times> string) list" where
  "gradient_stops g = stop_pairs (drop 3 g)"

section \<open>\<open>addLegend\<close>\<close>

subsection \<open>\<open>Number.prototype.toFixed\<close>\<close>

text \<open>The decimal digits of a natural number, most significant first.\<close>

definition digit_char :: "nat \<Rightarrow> char" where
  "digit_char d = ''0123456789'' ! (d mod 10)"

fun decimal_digits :: "nat \<Rightarrow> string" where
  "decimal_digits n =
     (if n < 10 then [digit_char n] else decimal_digits (n div 10) @ [digit_char (n mod 10)])"

declare decimal_digits.simps [simp del]

text \<open>
  \<open>x.toFixed(f)\<close> as the language defines it: RangeError for more than 100 digits; the
  name of a value that is not finite; otherwise the sign, then the integer \<open>n\<close> nearest to
  \<open>|x| * 10^f\<close> (the larger one on a tie), written with at least \<open>f + 1\<close> digits and a point
  before the last \<open>f\<close>. From \<open>10^21\<close> upwards the method gives up the fixed notation and
  returns the number's ordinary string form, which is exponential there and depends on
  the double's shortest round-trip digits: that text is kept unexpanded, as
  \<open>NumberToString r\<close>.
\<close>

definition toFixed :: "jsnum \<Rightarrow> nat \<Rightarrow> js_error + number_text" where
  "toFixed x f =
     (if f > 100 then Inl RangeError
      else case x of
        NaN \<Rightarrow> Inr (Text ''NaN'')
      | PosInf \<Rightarrow> Inr (Text ''Infinity'')
      | NegInf \<Rightarrow> Inr (Text ''-Infinity'')
      | Fin r \<Rightarrow>
          (let s = (if r < 0 then ''-'' else []);
               a = \<bar>r\<bar>
           in if a \<ge> 10 ^ 21 then Inr (NumberToString r)
              else
                (let n = nat \<lfloor>a * 10 ^ f + 1 / 2\<rfloor>;
                     m = decimal_digits n;
                     m1 = (if length m \<le> f then replicate (f + 1 - length m) (CHR ''0'') @ m
                           else m);
                     k = length m1
                 in Inr (Text (s @ (if f = 0 then m1
                                    else take (k - f) m1 @ ''.'' @ drop (k - f) m1))))))"

text \<open>
  Reading a decimal text back: the number its digits spell. Used only to say what the
  text produced by \<open>toFixed\<close> denotes.
\<close>

definition digit_value :: "char \<Rightarrow> nat" where
  "digit_value c = of_char c - 48"

definition digits_value :: "string \<Rightarrow> nat" where
  "digits_value s = foldl (\<lambda>a c. 10 * a + digit_value c) 0 s"

subsection \<open>The method\<close>

text \<open>
  Everything the class body defines, in source order: the constructor and seventeen
  methods. A call \<open>this.name(...)\<close> looks \<open>name\<close> up on the object; a name that is not
  there reads as \<open>undefined\<close>, and calling \<open>undefined\<close> throws TypeError. The six fields
  the constructor sets hold no function, and the methods every object inherits have other
  names than the one \<open>addLegend\<close> calls.
\<close>

definition AzureMapsRenderer_methods :: "string list" where
  "AzureMapsRenderer_methods =
     [''constructor'', ''initializeMap'', ''initializeWeatherMap'', ''addDataSources'',
      ''addLayers'', ''addPNGOverlay'', ''addGeoTIFFOverlay'', ''addInteractivePoints'',
      ''addWeatherData'', ''addWeatherPopups'', ''getColorGradient'', ''addLegend'',
      ''addPopups'', ''updateMap'', ''updateWeatherData'', ''addSearchBox'',
      ''searchLocation'', ''fitToData'']"

definition is_method :: "string \<Rightarrow> bool" where
  "is_method name = (name \<in> set AzureMapsRenderer_methods)"

record legend =
  title :: string
  date :: string
  region :: string

text \<open>
  \<open>valueRange[i].toFixed(1)\<close>: TypeError when \<open>valueRange\<close> is \<open>undefined\<close> or has no entry
  \<open>i\<close> (the entry then reads as \<open>undefined\<close>, which has no \<open>toFixed\<close>).
\<close>

definition range_label :: "jsnum list option \<Rightarrow> nat \<Rightarrow> js_error + number_text" where
  "range_label valueRange i =
     (case valueRange of
        None \<Rightarrow> Inl TypeError
      | Some xs \<Rightarrow> if i < length xs then toFixed (xs ! i) 1 else Inl TypeError)"

text \<open>
  \<open>addLegend\<close> (lines 411-456). The template literal evaluates its six substitutions from
  left to right and stops at the first one that throws: \<open>legend.title\<close>, \<open>legend.date\<close>,
  \<open>legend.region\<close> (TypeError when \<open>legend\<close> is \<open>undefined\<close>), then
  \<open>this.getLegendGradient(colorScheme)\<close>, then the two labels. Only then is the panel
  appended to the map's container (TypeError when \<open>this.map\<close> is still \<open>null\<close>). The panel
  is kept as the substituted values; the markup around them is constant.

  The call \<open>this.getLegendGradient(colorScheme)\<close> throws TypeError unless the name is a
  method of the object. The class has no body for that name, so past the lookup the panel
  keeps the argument of the call (\<open>gradient_scheme\<close>) in place of the text the call would
  return.
\<close>

definition addLegend ::
  "renderer \<Rightarrow> legend option \<Rightarrow> string \<Rightarrow> jsnum list option \<Rightarrow> js_error + renderer" where
  "addLegend this legend colorScheme valueRange =
     (case legend of
        None \<Rightarrow> Inl TypeError
      | Some l \<Rightarrow>
          if \<not> is_method ''getLegendGradient'' then Inl TypeError
          else
            (case range_label valueRange 0 of
               Inl e \<Rightarrow> Inl e
             | Inr lo \<Rightarrow>
                 (case range_label valueRange 1 of
                    Inl e \<Rightarrow> Inl e
                  | Inr hi \<Rightarrow>
                      (case map_control this of
                         None \<Rightarrow> Inl TypeError
                       | Some m \<Rightarrow>
                           (let panel = \<lparr>title_text = title l, date_text = date l,
                                         region_text = region l, gradient_scheme = colorScheme,
                                         min_label = lo, max_label = hi\<rparr>
                            in Inr (this\<lparr>map_control :=
                                      Some (m\<lparr>container := container m @ [panel]\<rparr>)\<rparr>))))))"

section \<open>Properties of the bounds\<close>

text \<open>
  On finite numbers the two loops are the folds of \<open>min\<close> and \<open>max\<close>; with at least one
  argument the starting infinity is gone after the first step.
\<close>

lemma min_loop_Fin: "min_loop (Fin a) (map Fin xs) = Fin (fold min xs a)"
  by (induction xs arbitrary: a) (auto simp: min_def)

lemma max_loop_Fin: "max_loop (Fin a) (map Fin xs) = Fin (fold max xs a)"
  by (induction xs arbitrary: a) (auto simp: max_def)

lemma Math_min_Fin: "xs \<noteq> [] \<Longrightarrow> Math_min (map Fin xs) = Fin (Min (set xs))"
proof (cases xs)
  case Nil
  assume "xs \<noteq> []"
  with Nil show ?thesis by simp
next
  case (Cons x ys)
  have "Math_min (map Fin xs) = min_loop (Fin x) (map Fin ys)"
    by (simp add: Math_min_def Cons)
  also have "\<dots> = Fin (fold min ys x)"
    by (rule min_loop_Fin)
  also have "fold min ys x = Min (set xs)"
    using Min.set_eq_fold [of x ys] by (simp add: Cons)
  finally show ?thesis .
qed

lemma Math_max_Fin: "xs \<noteq> [] \<Longrightarrow> Math_max (map Fin xs) = Fin (Max (set xs))"
proof (cases xs)
  case Nil
  assume "xs \<noteq> []"
  with Nil show ?thesis by simp
next
  case (Cons x ys)
  have "Math_max (map Fin xs) = max_loop (Fin x) (map Fin ys)"
    by (simp add: Math_max_def Cons)
  also have "\<dots> = Fin (fold max ys x)"
    by (rule max_loop_Fin)
  also have "fold max ys x = Max (set xs)"
    using Max.set_eq_fold [of x ys] by (simp add: Cons)
  finally show ?thesis .
qed

lemma js_le_Fin: "js_le (Fin a) (Fin b) = (a \<le> b)"
  by (auto simp: js_le_def js_eq_def)

lemma Min_le_Max_list: "xs \<noteq> [] \<Longrightarrow> Min (set xs) \<le> (Max (set xs) :: real)"
  by (simp add: Min_le_iff)

text \<open>
  Once entered, the calls give the extremes: for non-empty arrays of finite longitudes
  and latitudes the bounds are west = least longitude, east = greatest longitude, south =
  least latitude, north = greatest latitude.
\<close>

lemma overlay_bounds_Fin:
  assumes "lons \<noteq> []" and "lats \<noteq> []"
  shows "overlay_bounds (Some \<lparr>longitude = map Fin lons, latitude = map Fin lats\<rparr>) =
           Inr \<lparr>west = Fin (Min (set lons)), east = Fin (Max (set lons)),
                south = Fin (Min (set lats)), north = Fin (Max (set lats))\<rparr>"
  using assms by (simp add: overlay_bounds_def Math_min_Fin Math_max_Fin)

text \<open>
  The lines as they run agree with \<open>overlay_bounds\<close> on arrays within the engine's bound
  and end with RangeError on longer ones; \<open>addPNGOverlay\<close> then catches the error and
  leaves the renderer as it was: no bounds, no image layer.
\<close>

lemma overlay_bounds_spread_within:
  assumes "length (longitude wd) \<le> maxArguments" and "length (latitude wd) \<le> maxArguments"
  shows "overlay_bounds_spread maxArguments (Some wd) = overlay_bounds (Some wd)"
  using assms by (simp add: overlay_bounds_spread_def)

lemma overlay_bounds_spread_too_long:
  assumes "maxArguments < length (longitude wd) \<or> maxArguments < length (latitude wd)"
  shows "overlay_bounds_spread maxArguments (Some wd) = Inl RangeError"
  using assms by (auto simp: overlay_bounds_spread_def)

lemma addPNGOverlay_too_long:
  assumes "maxArguments < length (longitude wd) \<or> maxArguments < length (latitude wd)"
  shows "addPNGOverlay maxArguments this overlayUrl (Some wd) = (this, Some RangeError)"
  using overlay_bounds_spread_too_long [OF assms] by (simp add: addPNGOverlay_def)

text \<open>
  What the lines do deliver: for non-empty arrays of finite coordinates that are not
  longer than the engine's bound, the bounds are the extremes, hence west \<open><=\<close> east and
  south \<open><=\<close> north. (A list of \<open>n\<close> sample points gives two arrays of length \<open>n\<close>; the
  method itself takes the two arrays and does not need them to have the same length.)
\<close>

lemma overlay_bounds_spread_min_max:
  assumes "lons \<noteq> []" and "lats \<noteq> []"
    and "length lons \<le> maxArguments" and "length lats \<le> maxArguments"
  shows "overlay_bounds_spread maxArguments
           (Some \<lparr>longitude = map Fin lons, latitude = map Fin lats\<rparr>) =
           Inr \<lparr>west = Fin (Min (set lons)), east = Fin (Max (set lons)),
                south = Fin (Min (set lats)), north = Fin (Max (set lats))\<rparr>
         \<and> js_le (Fin (Min (set lons))) (Fin (Max (set lons)))
         \<and> js_le (Fin (Min (set lats))) (Fin (Max (set lats)))"
proof -
  have "overlay_bounds_spread maxArguments
          (Some \<lparr>longitude = map Fin lons, latitude = map Fin lats\<rparr>) =
        overlay_bounds (Some \<lparr>longitude = map Fin lons, latitude = map Fin lats\<rparr>)"
    using assms(3,4) by (simp add: overlay_bounds_spread_within)
  then have "overlay_bounds_spread maxArguments
          (Some \<lparr>longitude = map Fin lons, latitude = map Fin lats\<rparr>) =
          Inr \<lparr>west = Fin (Min (set lons)), east = Fin (Max (set lons)),
               south = Fin (Min (set lats)), north = Fin (Max (set lats))\<rparr>"
    using overlay_bounds_Fin [OF assms(1,2)] by simp
  moreover have "js_le (Fin (Min (set lons))) (Fin (Max (set lons)))"
    using Min_le_Max_list [OF assms(1)] by (simp add: js_le_Fin)
  moreover have "js_le (Fin (Min (set lats))) (Fin (Max (set lats)))"
    using Min_le_Max_list [OF assms(2)] by (simp add: js_le_Fin)
  ultimately show ?thesis by blast
qed

text \<open>The two points of the specification's end-to-end example, on any engine.\<close>

lemma overlay_bounds_spread_example:
  "overlay_bounds_spread (Suc (Suc n))
     (Some \<lparr>longitude = [Fin (- 87.6), Fin (- 80.0)], latitude = [Fin 24.5, Fin 31.0]\<rparr>) =
     Inr \<lparr>west = Fin (- 87.6), east = Fin (- 80.0), south = Fin 24.5, north = Fin 31.0\<rparr>"
  using overlay_bounds_spread_min_max [of "[- 87.6, - 80.0]" "[24.5, 31.0]" "Suc (Suc n)"]
  by simp

text \<open>
  C1. The claim promises the extremes for every non-empty list of sample points. With
  131072 sample points, on an engine that takes at most 65536 arguments in one call, the
  first spread call throws RangeError: no bounds are computed, the \<open>catch\<close> block logs the
  error, and the renderer is left without an image layer.
\<close>

theorem addPNGOverlay_long_arrays:
  "overlay_bounds_spread 65536
     (Some \<lparr>longitude = replicate 131072 (Fin (- 87.6)),
            latitude = replicate 131072 (Fin 24.5)\<rparr>) = Inl RangeError
   \<and> addPNGOverlay 65536
       \<lparr>subscriptionKey = ''key'',
        map_control = Some \<lparr>layers = [], camera = None, container = []\<rparr>,
        imageLayer = None\<rparr>
       ''overlay.png''
       (Some \<lparr>longitude = replicate 131072 (Fin (- 87.6)),
              latitude = replicate 131072 (Fin 24.5)\<rparr>) =
     (\<lparr>subscriptionKey = ''key'',
       map_control = Some \<lparr>layers = [], camera = None, container = []\<rparr>,
       imageLayer = None\<rparr>,
      Some RangeError)"
proof -
  have long: "(65536 :: nat) < length (replicate 131072 (Fin (- 87.6)))"
    by (simp only: length_replicate)
  show ?thesis
    using long by (simp add: overlay_bounds_spread_def addPNGOverlay_def)
qed

text \<open>
  C2. For every bounds value the \<open>coordinates\<close> array of the image layer has exactly four
  pairs, in the order (west, north), (east, north), (east, south), (west, south): corners
  0 and 1 share the north latitude, corners 2 and 3 the south latitude, corners 0 and 3
  the west longitude, corners 1 and 2 the east longitude.
\<close>

theorem overlay_coordinates_corners:
  "overlay_coordinates b =
     [(west b, north b), (east b, north b), (east b, south b), (west b, south b)]
   \<and> length (overlay_coordinates b) = 4
   \<and> snd (overlay_coordinates b ! 0) = north b \<and> snd (overlay_coordinates b ! 1) = north b
   \<and> snd (overlay_coordinates b ! 2) = south b \<and> snd (overlay_coordinates b ! 3) = south b
   \<and> fst (overlay_coordinates b ! 0) = west b \<and> fst (overlay_coordinates b ! 3) = west b
   \<and> fst (overlay_coordinates b ! 1) = east b \<and> fst (overlay_coordinates b ! 2) = east b"
  by (simp add: overlay_coordinates_def)

text \<open>
  What \<open>addPNGOverlay\<close> stores: whenever the weather data is there and within the engine's
  bound, the image layer kept in \<open>this.imageLayer\<close> has these four corners, computed from
  the extremes of the arrays, whether or not the map was ready.
\<close>

lemma addPNGOverlay_imageLayer:
  assumes "length (longitude wd) \<le> maxArguments" and "length (latitude wd) \<le> maxArguments"
  shows "imageLayer (fst (addPNGOverlay maxArguments this overlayUrl (Some wd))) =
     Some \<lparr>url = overlayUrl,
           coordinates =
             [(Math_min (longitude wd), Math_max (latitude wd)),
              (Math_max (longitude wd), Math_max (latitude wd)),
              (Math_max (longitude wd), Math_min (latitude wd)),
              (Math_min (longitude wd), Math_min (latitude wd))],
           opacity = 0.9\<rparr>"
  using assms
  by (simp add: addPNGOverlay_def overlay_bounds_spread_def overlay_bounds_def
      overlay_coordinates_def Let_def split: option.split)

text \<open>
  C3 (as stated: on an empty list the bounds computation fails with EmptyInputError).
  The code has no such check: \<open>Math.min()\<close> and \<open>Math.max()\<close> without arguments return the
  infinities, and the computation returns bounds.
\<close>

theorem overlay_bounds_empty_counterexample:
  "overlay_bounds (Some \<lparr>longitude = [], latitude = []\<rparr>) \<noteq> Inl EmptyInputError"
  by (simp add: overlay_bounds_def)

text \<open>
  C3, amended. The bounds computation never fails with EmptyInputError; on empty arrays
  it returns west = +Infinity, east = -Infinity, south = +Infinity, north = -Infinity.
\<close>

theorem overlay_bounds_empty:
  "overlay_bounds weatherData \<noteq> Inl EmptyInputError
   \<and> overlay_bounds (Some \<lparr>longitude = [], latitude = []\<rparr>) =
       Inr \<lparr>west = PosInf, east = NegInf, south = PosInf, north = NegInf\<rparr>"
  by (simp add: overlay_bounds_def Math_min_def Math_max_def Let_def split: option.split)

text \<open>
  Empty arrays are within every engine's bound, so the lines as they run return the same
  infinite bounds. On a renderer whose map is ready \<open>addPNGOverlay\<close> then stores and adds
  an image layer with infinite corners, sets the camera to the same bounds, and its
  \<open>catch\<close> block logs nothing.
\<close>

lemma overlay_bounds_spread_empty:
  "overlay_bounds_spread maxArguments (Some \<lparr>longitude = [], latitude = []\<rparr>) =
     Inr \<lparr>west = PosInf, east = NegInf, south = PosInf, north = NegInf\<rparr>"
  by (simp add: overlay_bounds_spread_def overlay_bounds_def Math_min_def Math_max_def)

lemma addPNGOverlay_empty:
  "addPNGOverlay maxArguments
     \<lparr>subscriptionKey = key, map_control = Some m, imageLayer = old\<rparr> overlayUrl
     (Some \<lparr>longitude = [], latitude = []\<rparr>) =
   (\<lparr>subscriptionKey = key,
     map_control = Some (m\<lparr>layers := layers m @
         [\<lparr>url = overlayUrl,
           coordinates = [(PosInf, NegInf), (NegInf, NegInf), (NegInf, PosInf), (PosInf, PosInf)],
           opacity = 0.9\<rparr>],
       camera := Some \<lparr>bounds = [PosInf, PosInf, NegInf, NegInf], padding = 50\<rparr>\<rparr>),
     imageLayer = Some \<lparr>url = overlayUrl,
       coordinates = [(PosInf, NegInf), (NegInf, NegInf), (NegInf, PosInf), (PosInf, PosInf)],
       opacity = 0.9\<rparr>\<rparr>,
    None)"
  by (simp add: addPNGOverlay_def overlay_bounds_spread_empty overlay_coordinates_def Let_def)

text \<open>
  C9. A single sample point gives degenerate bounds, west == east and south == north, and
  the four corners of the image layer all coincide with the point. The corners are also
  produced when only west == east, or only south == north: nothing in their construction
  can fail.
\<close>

theorem single_point_degenerate:
  "overlay_bounds (Some \<lparr>longitude = [Fin x], latitude = [Fin y]\<rparr>) =
     Inr \<lparr>west = Fin x, east = Fin x, south = Fin y, north = Fin y\<rparr>
   \<and> js_eq (Fin x) (Fin x) \<and> js_eq (Fin y) (Fin y)
   \<and> overlay_coordinates \<lparr>west = Fin x, east = Fin x, south = Fin y, north = Fin y\<rparr> =
       [(Fin x, Fin y), (Fin x, Fin y), (Fin x, Fin y), (Fin x, Fin y)]
   \<and> overlay_coordinates \<lparr>west = w, east = w, south = s, north = n\<rparr> =
       [(w, n), (w, n), (w, s), (w, s)]
   \<and> overlay_coordinates \<lparr>west = w, east = e, south = s, north = s\<rparr> =
       [(w, s), (e, s), (e, s), (w, s)]"
  by (simp add: overlay_bounds_def Math_min_def Math_max_def overlay_coordinates_def js_eq_def)

text \<open>
  One argument is within the bound of every engine that can make a call with an argument
  at all, so the lines as they run give the same degenerate bounds.
\<close>

lemma overlay_bounds_spread_single:
  "overlay_bounds_spread (Suc n) (Some \<lparr>longitude = [Fin x], latitude = [Fin y]\<rparr>) =
     Inr \<lparr>west = Fin x, east = Fin x, south = Fin y, north = Fin y\<rparr>"
  by (simp add: overlay_bounds_spread_def overlay_bounds_def Math_min_def Math_max_def)

section \<open>Properties of the gradients\<close>

text \<open>
  C6. \<open>getColorGradient\<close> answers every scheme name: the \<open>switch\<close> has a \<open>default\<close> branch
  and no path that throws, so the result is always one of the four tables, and every name
  other than temperature, precipitation and drought (the name default included) gets the
  table of the \<open>default\<close> branch.
\<close>

theorem getColorGradient_unknown_default:
  "getColorGradient colorScheme valueRange \<in>
     {getColorGradient ''temperature'' valueRange, getColorGradient ''precipitation'' valueRange,
      getColorGradient ''drought'' valueRange, getColorGradient ''default'' valueRange}
   \<and> (colorScheme \<notin> {''temperature'', ''precipitation'', ''drought'', ''default''} \<longrightarrow>
        getColorGradient colorScheme valueRange = getColorGradient ''default'' valueRange)
   \<and> getColorGradient ''default'' valueRange =
       [Str ''interpolate'', Arr [Str ''linear''], Arr [Str ''heatmap-density''],
        Num 0, Str ''rgba(0, 0, 255, 0)'',
        Num 0.5, Str ''rgba(0, 255, 0, 1)'',
        Num 1, Str ''rgba(255, 0, 0, 1)'']"
  by (simp add: getColorGradient_def)

theorem getColorGradient_unknown_default_witness:
  "''unknown-scheme-xyz'' \<notin> {''temperature'', ''precipitation'', ''drought'', ''default''}
   \<and> getColorGradient ''unknown-scheme-xyz'' None = getColorGradient ''default'' None
   \<and> getColorGradient ''unknown-scheme-xyz'' None =
       [Str ''interpolate'', Arr [Str ''linear''], Arr [Str ''heatmap-density''],
        Num 0, Str ''rgba(0, 0, 255, 0)'',
        Num 0.5, Str ''rgba(0, 255, 0, 1)'',
        Num 1, Str ''rgba(255, 0, 0, 1)'']"
  using getColorGradient_unknown_default [of "''unknown-scheme-xyz''" None] by simp

text \<open>
  C7. For every scheme name, known or not, the gradient is a non-empty sequence of
  (stop, colour) pairs that takes up the whole expression after its three leading
  entries; the stops are strictly increasing, lie in [0, 1], start at 0 and end at 1.
\<close>

theorem getColorGradient_stops:
  "gradient_stops (getColorGradient colorScheme valueRange) \<noteq> []
   \<and> length (getColorGradient colorScheme valueRange) =
       3 + 2 * length (gradient_stops (getColorGradient colorScheme valueRange))
   \<and> sorted_wrt (<) (map fst (gradient_stops (getColorGradient colorScheme valueRange)))
   \<and> list_all (\<lambda>s. 0 \<le> s \<and> s \<le> 1)
       (map fst (gradient_stops (getColorGradient colorScheme valueRange)))
   \<and> fst (hd (gradient_stops (getColorGradient colorScheme valueRange))) = 0
   \<and> fst (last (gradient_stops (getColorGradient colorScheme valueRange))) = 1"
proof -
  consider (temperature) "colorScheme = ''temperature''"
    | (precipitation) "colorScheme = ''precipitation''"
    | (drought) "colorScheme = ''drought''"
    | (other) "colorScheme \<noteq> ''temperature''" "colorScheme \<noteq> ''precipitation''"
        "colorScheme \<noteq> ''drought''"
    by blast
  then show ?thesis
  proof cases
    case temperature
    then show ?thesis by (simp add: getColorGradient_def gradient_stops_def)
  next
    case precipitation
    then show ?thesis by (simp add: getColorGradient_def gradient_stops_def)
  next
    case drought
    then show ?thesis by (simp add: getColorGradient_def gradient_stops_def)
  next
    case other
    then show ?thesis by (simp add: getColorGradient_def gradient_stops_def)
  qed
qed

text \<open>
  C10. The result of \<open>getColorGradient\<close> does not depend on the value range: the same
  scheme name with any two ranges gives the same gradient.
\<close>

theorem getColorGradient_ignores_valueRange:
  "getColorGradient colorScheme r1 = getColorGradient colorScheme r2"
  by (simp add: getColorGradient_def)

section \<open>Properties of the legend\<close>

lemma decimal_digits_0: "decimal_digits 0 = ''0''"
  by (simp add: decimal_digits.simps [of 0] digit_char_def)

lemma decimal_digits_50: "decimal_digits 50 = ''50''"
  by (simp add: decimal_digits.simps [of 50] decimal_digits.simps [of 5] digit_char_def)

lemma decimal_digits_1: "decimal_digits (Suc 0) = ''1''"
  by (simp add: decimal_digits.simps [of "Suc 0"] digit_char_def)

lemma decimal_digits_100: "decimal_digits 100 = ''100''"
  by (simp add: decimal_digits.simps [of 100] decimal_digits.simps [of 10]
      decimal_digits_1 digit_char_def)

lemma decimal_digits_450: "decimal_digits 450 = ''450''"
  by (simp add: decimal_digits.simps [of 450] decimal_digits.simps [of 45]
      decimal_digits.simps [of 4] digit_char_def)

text \<open>
  \<open>decimal_digits\<close> writes at least one digit, only digits, and the digits spell the
  number.
\<close>

lemma digit_char_in: "digit_char d \<in> set ''0123456789''"
  unfolding digit_char_def by (rule nth_mem) simp

lemma digit_value_digit_char: "d < 10 \<Longrightarrow> digit_value (digit_char d) = d"
proof -
  assume "d < 10"
  then have "d \<in> {0, 1, 2, 3, 4, 5, 6, 7, 8, 9}" by auto
  then show ?thesis
    by (auto simp: digit_value_def digit_char_def)
qed

lemma decimal_digits_nonempty: "decimal_digits n \<noteq> []"
  by (subst decimal_digits.simps) simp

lemma decimal_digits_set: "set (decimal_digits n) \<subseteq> set ''0123456789''"
proof (induction n rule: decimal_digits.induct)
  case (1 n)
  show ?case
  proof (cases "n < 10")
    case True
    then show ?thesis
      using digit_char_in [of n] by (subst decimal_digits.simps) simp
  next
    case False
    then show ?thesis
      using "1.IH" digit_char_in [of "n mod 10"] by (subst decimal_digits.simps) simp
  qed
qed

lemma digits_value_snoc: "digits_value (s @ [c]) = 10 * digits_value s + digit_value c"
  by (simp add: digits_value_def)

lemma digits_value_decimal_digits: "digits_value (decimal_digits n) = n"
proof (induction n rule: decimal_digits.induct)
  case (1 n)
  show ?case
  proof (cases "n < 10")
    case True
    then show ?thesis
      by (subst decimal_digits.simps) (simp add: digits_value_def digit_value_digit_char)
  next
    case False
    then have "digits_value (decimal_digits n) =
        10 * digits_value (decimal_digits (n div 10)) + digit_value (digit_char (n mod 10))"
      by (subst decimal_digits.simps) (simp add: digits_value_snoc)
    also have "\<dots> = 10 * (n div 10) + n mod 10"
      using False "1.IH" by (simp add: digit_value_digit_char)
    finally show ?thesis by simp
  qed
qed

text \<open>
  What \<open>toFixed(1)\<close> writes for a finite number below \<open>10^21\<close> in magnitude: the sign, at
  least one digit, the point, and exactly one more digit; read without the point, the
  digits spell the integer nearest to ten times the magnitude (ties upwards).
\<close>

lemma toFixed_one_decimal:
  assumes "\<bar>r\<bar> < 10 ^ 21"
  shows "\<exists>ip d. toFixed (Fin r) 1 = Inr (Text ((if r < 0 then ''-'' else []) @ ip @ ''.'' @ [d]))
           \<and> ip \<noteq> [] \<and> set (ip @ [d]) \<subseteq> set ''0123456789''
           \<and> digits_value (ip @ [d]) = nat \<lfloor>\<bar>r\<bar> * 10 + 1 / 2\<rfloor>"
proof -
  define n where "n = nat \<lfloor>\<bar>r\<bar> * 10 + 1 / 2\<rfloor>"
  define m where "m = decimal_digits n"
  have m_ne: "m \<noteq> []"
    by (simp add: m_def decimal_digits_nonempty)
  have m_set: "set m \<subseteq> set ''0123456789''"
    unfolding m_def by (rule decimal_digits_set)
  have m_val: "digits_value m = n"
    by (simp add: m_def digits_value_decimal_digits)
  show ?thesis
  proof (cases "length m \<le> 1")
    case True
    with m_ne obtain c where m: "m = [c]"
      by (cases m) auto
    have "toFixed (Fin r) 1 = Inr (Text ((if r < 0 then ''-'' else []) @ ''0'' @ ''.'' @ [c]))"
      using assms m by (simp add: toFixed_def Let_def n_def [symmetric] m_def [symmetric])
    moreover have "set (''0'' @ [c]) \<subseteq> set ''0123456789''"
      using m_set m by simp
    moreover have "digits_value (''0'' @ [c]) = n"
      using m_val m by (simp add: digits_value_def digit_value_def)
    ultimately show ?thesis
      unfolding n_def by blast
  next
    case False
    define ip where "ip = butlast m"
    define d where "d = last m"
    have m: "m = ip @ [d]"
      using m_ne by (simp add: ip_def d_def)
    have ip_ne: "ip \<noteq> []"
      using False m by (cases ip) auto
    have "toFixed (Fin r) 1 = Inr (Text ((if r < 0 then ''-'' else []) @ ip @ ''.'' @ [d]))"
      using assms False ip_ne
      by (simp add: toFixed_def Let_def n_def [symmetric] m_def [symmetric] m)
    moreover have "set (ip @ [d]) \<subseteq> set ''0123456789''"
      using m_set m by simp
    moreover have "digits_value (ip @ [d]) = n"
      using m_val m by simp
    ultimately show ?thesis
      unfolding n_def using ip_ne by blast
  qed
qed

text \<open>
  The two label expressions alone, on the ranges the specification names: they format
  what they are given and compare nothing.
\<close>

lemma range_label_0_45:
  "range_label (Some [Fin 0, Fin 45]) 0 = Inr (Text ''0.0'')
   \<and> range_label (Some [Fin 0, Fin 45]) 1 = Inr (Text ''45.0'')"
  by (simp add: range_label_def toFixed_def decimal_digits_0 decimal_digits_450)

lemma range_label_10_5:
  "range_label (Some [Fin 10, Fin 5]) 0 = Inr (Text ''10.0'')
   \<and> range_label (Some [Fin 10, Fin 5]) 1 = Inr (Text ''5.0'')"
  by (simp add: range_label_def toFixed_def decimal_digits_100 decimal_digits_50)

lemma getLegendGradient_missing: "\<not> is_method ''getLegendGradient''"
  by (simp add: is_method_def AzureMapsRenderer_methods_def)

text \<open>
  C4. The class defines no method \<open>getLegendGradient\<close>, and every call of \<open>addLegend\<close>,
  whatever the renderer's state and the three arguments, ends with a TypeError: the
  result is never a renderer with a legend panel added.
\<close>

theorem addLegend_TypeError:
  "''getLegendGradient'' \<notin> set AzureMapsRenderer_methods
   \<and> addLegend this legend colorScheme valueRange = Inl TypeError"
proof -
  have missing: "''getLegendGradient'' \<notin> set AzureMapsRenderer_methods"
    by (simp add: AzureMapsRenderer_methods_def)
  then have no_method: "\<not> is_method ''getLegendGradient''"
    by (simp add: is_method_def)
  have "addLegend this legend colorScheme valueRange = Inl TypeError"
  proof (cases legend)
    case None
    then show ?thesis by (simp add: addLegend_def)
  next
    case (Some l)
    with no_method show ?thesis by (simp add: addLegend_def)
  qed
  with missing show ?thesis by simp
qed

text \<open>
  C5 (as stated: an inverted value range makes the legend fail with InvalidRangeError).
  With the range (10, 5), on a renderer whose map is ready, the outcome is another one.
\<close>

theorem addLegend_inverted_range_counterexample:
  "addLegend
     \<lparr>subscriptionKey = ''key'',
      map_control = Some \<lparr>layers = [], camera = None, container = []\<rparr>,
      imageLayer = None\<rparr>
     (Some \<lparr>title = ''Precipitation'', date = ''2023-01-21'', region = ''Florida''\<rparr>)
     ''precipitation'' (Some [Fin 10, Fin 5])
   \<noteq> Inl InvalidRangeError"
  by (simp add: addLegend_def getLegendGradient_missing)

text \<open>
  The label expressions can only end with the TypeError of a missing entry: with one
  fraction digit \<open>toFixed\<close> has no RangeError, and on a finite number it always returns a
  text.
\<close>

lemma range_label_errors: "range_label valueRange i = Inl e \<Longrightarrow> e = TypeError"
  by (auto simp: range_label_def toFixed_def Let_def
      split: option.splits if_splits jsnum.splits)

lemma toFixed_Fin_returns: "\<exists>t. toFixed (Fin r) 1 = Inr t"
  by (simp add: toFixed_def Let_def)

text \<open>
  C5, amended. For every legend input whose value range is inverted, \<open>addLegend\<close> does not
  fail with InvalidRangeError, because its two label expressions do not compare the ends
  of the range: each of them succeeds, the first is \<open>toFixed(1)\<close> of the first entry and
  the second is \<open>toFixed(1)\<close> of the second entry, as given. For the range (10, 5) they
  are 10.0 and 5.0.
\<close>

theorem addLegend_no_range_check:
  assumes "hi < lo"
  shows "range_label (Some [Fin lo, Fin hi]) 0 = toFixed (Fin lo) 1
         \<and> range_label (Some [Fin lo, Fin hi]) 1 = toFixed (Fin hi) 1
         \<and> (\<exists>a b. range_label (Some [Fin lo, Fin hi]) 0 = Inr a
                  \<and> range_label (Some [Fin lo, Fin hi]) 1 = Inr b)
         \<and> addLegend this legend colorScheme (Some [Fin lo, Fin hi]) \<noteq> Inl InvalidRangeError"
proof -
  have first: "range_label (Some [Fin lo, Fin hi]) 0 = toFixed (Fin lo) 1"
    by (simp add: range_label_def)
  have second: "range_label (Some [Fin lo, Fin hi]) 1 = toFixed (Fin hi) 1"
    by (simp add: range_label_def)
  obtain a where a: "toFixed (Fin lo) 1 = Inr a"
    using toFixed_Fin_returns [of lo] by blast
  obtain b where b: "toFixed (Fin hi) 1 = Inr b"
    using toFixed_Fin_returns [of hi] by blast
  have both: "\<exists>a b. range_label (Some [Fin lo, Fin hi]) 0 = Inr a
                  \<and> range_label (Some [Fin lo, Fin hi]) 1 = Inr b"
    using first second a b by simp
  have "addLegend this legend colorScheme (Some [Fin lo, Fin hi]) \<noteq> Inl InvalidRangeError"
    by (cases legend) (simp_all add: addLegend_def getLegendGradient_missing)
  with first second both show ?thesis by blast
qed

theorem addLegend_no_range_check_witness:
  "(5 :: real) < 10
   \<and> range_label (Some [Fin 10, Fin 5]) 0 = Inr (Text ''10.0'')
   \<and> range_label (Some [Fin 10, Fin 5]) 1 = Inr (Text ''5.0'')
   \<and> addLegend (AzureMapsRenderer ''key'')
        (Some \<lparr>title = ''Precipitation'', date = ''2023-01-21'', region = ''Florida''\<rparr>)
        ''precipitation'' (Some [Fin 10, Fin 5])
      \<noteq> Inl InvalidRangeError"
  using addLegend_no_range_check [of 5 10 "AzureMapsRenderer ''key''"
      "Some \<lparr>title = ''Precipitation'', date = ''2023-01-21'', region = ''Florida''\<rparr>"
      "''precipitation''"]
    range_label_10_5
  by simp

text \<open>
  C8. With the value range (0, 45) and the scheme precipitation the two label expressions
  would give 0.0 and 45.0 (\<open>range_label_0_45\<close>, and \<open>toFixed_one_decimal\<close> for the general
  shape), but \<open>addLegend\<close> never gets to them: it ends with the TypeError of the call
  before, and no label is produced.
\<close>

theorem addLegend_range_0_45:
  "addLegend
     \<lparr>subscriptionKey = ''key'',
      map_control = Some \<lparr>layers = [], camera = None, container = []\<rparr>,
      imageLayer = None\<rparr>
     (Some \<lparr>title = ''Precipitation'', date = ''2023-01-21'', region = ''Florida''\<rparr>)
     ''precipitation'' (Some [Fin 0, Fin 45])
   = Inl TypeError"
  by (simp add: addLegend_def getLegendGradient_missing)

end
